theory Spec2Isabelle
  imports Main "HOL-Library.Word"
begin

unbundle bit_operations_syntax

section \<open>NEORV32 TRNG driver: registers and accesses\<close>

text \<open>
  The driver \<^verbatim>\<open>sw/lib/source/neorv32_trng.c\<close> works on two memory-mapped 32-bit
  registers: \<^verbatim>\<open>NEORV32_TRNG.CTRL\<close> (read and written) and \<^verbatim>\<open>NEORV32_SYSINFO.SOC\<close>
  (read only). Both are volatile objects, so every access in the C text is an access on
  the bus. The model keeps the two register values and a log of every access in program
  order; a \<^verbatim>\<open>nop\<close> of the busy-wait loops is logged as well, which makes the number of
  loop iterations observable. A register holds the value last stored to it: reactions of
  the peripheral (the self-clearing \<^verbatim>\<open>FIFO_CLR\<close>, the read-only flags) are not part of
  the driver, and every statement below ranges over all register values at the time of
  the call.
\<close>

type_synonym uint32_t = "32 word"
type_synonym uint8_t = "8 word"

datatype reg = TRNG_CTRL | SYSINFO_SOC

datatype access = Load reg uint32_t | Store reg uint32_t | Nop

record machine =
  CTRL :: uint32_t
  SOC :: uint32_t
  log :: "access list"

text \<open>
  The bit positions are enumerators of \<^verbatim>\<open>neorv32.h\<close>, which the driver includes. They
  are parameters of the model: every operation that names one takes the header's values
  as its first argument, and no statement below fixes them.
\<close>

record neorv32_h =
  SYSINFO_SOC_IO_TRNG :: nat
  TRNG_CTRL_DATA_LSB :: nat
  TRNG_CTRL_FIFO_CLR :: nat
  TRNG_CTRL_SIM_MODE :: nat
  TRNG_CTRL_EN :: nat
  TRNG_CTRL_VALID :: nat

text \<open>One admissible assignment of the enumerators, used to run the model.\<close>

definition sample_h :: neorv32_h where
  "sample_h = \<lparr> SYSINFO_SOC_IO_TRNG = 24, TRNG_CTRL_DATA_LSB = 0, TRNG_CTRL_FIFO_CLR = 28,
     TRNG_CTRL_SIM_MODE = 29, TRNG_CTRL_EN = 30, TRNG_CTRL_VALID = 31 \<rparr>"

text \<open>
  The C expression \<^verbatim>\<open>1 << n\<close>, converted to \<^verbatim>\<open>uint32_t\<close> where it meets the register
  (by \<^verbatim>\<open>&\<close>, \<^verbatim>\<open>|=\<close> or assignment). C gives it a meaning for \<open>n < 32\<close> only
  (for \<open>n = 31\<close> the \<^verbatim>\<open>int\<close> is \<^verbatim>\<open>INT_MIN\<close> on the RISC-V target, which converts to
  \<open>0x80000000\<close>); the statements that need a bit position to lie inside the register
  say so.
\<close>

definition shl1 :: "nat \<Rightarrow> uint32_t" where
  "shl1 n = push_bit n 1"

subsection \<open>Single accesses\<close>

definition ld_CTRL :: "machine \<Rightarrow> uint32_t \<times> machine" where
  "ld_CTRL m = (CTRL m, m\<lparr>log := log m @ [Load TRNG_CTRL (CTRL m)]\<rparr>)"

definition st_CTRL :: "uint32_t \<Rightarrow> machine \<Rightarrow> machine" where
  "st_CTRL v m = m\<lparr>CTRL := v, log := log m @ [Store TRNG_CTRL v]\<rparr>"

definition ld_SOC :: "machine \<Rightarrow> uint32_t \<times> machine" where
  "ld_SOC m = (SOC m, m\<lparr>log := log m @ [Load SYSINFO_SOC (SOC m)]\<rparr>)"

definition nop :: "machine \<Rightarrow> machine" where
  "nop m = m\<lparr>log := log m @ [Nop]\<rparr>"

subsection \<open>The driver's functions\<close>

text \<open>
  \<^verbatim>\<open>int neorv32_trng_available(void)\<close>:
  \<^verbatim>\<open>if (NEORV32_SYSINFO.SOC & (1 << SYSINFO_SOC_IO_TRNG)) return 1; else return 0;\<close>
\<close>

definition neorv32_trng_available :: "neorv32_h \<Rightarrow> machine \<Rightarrow> int \<times> machine" where
  "neorv32_trng_available H m =
     (let (soc, m') = ld_SOC m in
      if soc AND shl1 (SYSINFO_SOC_IO_TRNG H) \<noteq> 0 then (1, m') else (0, m'))"

text \<open>
  The busy-wait \<^verbatim>\<open>for (i=0; i<256; i++) { asm volatile ("nop"); }\<close>, started at a
  given value of \<^verbatim>\<open>i\<close>. The counter stays within \<open>0..256\<close>, far from the range of
  \<^verbatim>\<open>int\<close>.
\<close>

function nop_loop :: "int \<Rightarrow> machine \<Rightarrow> machine" where
  "nop_loop i m = (if i < 256 then nop_loop (i + 1) (nop m) else m)"
  by pat_completeness auto
termination
  by (relation "measure (\<lambda>(i, m). nat (256 - i))") auto

declare nop_loop.simps [simp del]

text \<open>
  \<^verbatim>\<open>void neorv32_trng_fifo_clear(void)\<close>:
  \<^verbatim>\<open>NEORV32_TRNG.CTRL |= 1 << TRNG_CTRL_FIFO_CLR;\<close>
\<close>

definition neorv32_trng_fifo_clear :: "neorv32_h \<Rightarrow> machine \<Rightarrow> machine" where
  "neorv32_trng_fifo_clear H m =
     (let (ctrl, m') = ld_CTRL m in
      st_CTRL (ctrl OR shl1 (TRNG_CTRL_FIFO_CLR H)) m')"

text \<open>\<^verbatim>\<open>void neorv32_trng_enable(void)\<close>: reset, wait, activate, wait, clear the pool.\<close>

definition neorv32_trng_enable :: "neorv32_h \<Rightarrow> machine \<Rightarrow> machine" where
  "neorv32_trng_enable H m =
     (let m1 = st_CTRL 0 m;
          m2 = nop_loop 0 m1;
          m3 = st_CTRL (shl1 (TRNG_CTRL_EN H)) m2;
          m4 = nop_loop 0 m3
      in neorv32_trng_fifo_clear H m4)"

text \<open>\<^verbatim>\<open>void neorv32_trng_disable(void)\<close>: \<^verbatim>\<open>NEORV32_TRNG.CTRL = 0;\<close>\<close>

definition neorv32_trng_disable :: "machine \<Rightarrow> machine" where
  "neorv32_trng_disable m = st_CTRL 0 m"

text \<open>
  \<^verbatim>\<open>int neorv32_trng_get(uint8_t *data)\<close>. The location \<^verbatim>\<open>*data\<close> is the second
  argument and the second component of the result; the first component is the return
  value.
\<close>

definition neorv32_trng_get :: "neorv32_h \<Rightarrow> uint8_t \<Rightarrow> machine \<Rightarrow> int \<times> uint8_t \<times> machine" where
  "neorv32_trng_get H data m =
     (let (ct_reg, m') = ld_CTRL m in
      if ct_reg AND shl1 (TRNG_CTRL_VALID H) \<noteq> 0
      then (0, ucast (drop_bit (TRNG_CTRL_DATA_LSB H) ct_reg), m')
      else (- 1, data, m'))"

text \<open>
  \<^verbatim>\<open>int neorv32_trng_check_sim_mode(void)\<close>:
  \<^verbatim>\<open>if (NEORV32_TRNG.CTRL & (1<<TRNG_CTRL_SIM_MODE)) return -1; else return 0;\<close>
\<close>

definition neorv32_trng_check_sim_mode :: "neorv32_h \<Rightarrow> machine \<Rightarrow> int \<times> machine" where
  "neorv32_trng_check_sim_mode H m =
     (let (ctrl, m') = ld_CTRL m in
      if ctrl AND shl1 (TRNG_CTRL_SIM_MODE H) \<noteq> 0 then (- 1, m') else (0, m'))"


section \<open>Bit masks and the data byte\<close>

lemma bit_shl1: "bit (shl1 n) k \<longleftrightarrow> k = n \<and> n < 32"
  by (auto simp add: shl1_def bit_exp_iff)

lemma and_shl1_nonzero: "w AND shl1 n \<noteq> 0 \<longleftrightarrow> bit w n"
proof
  assume "w AND shl1 n \<noteq> 0"
  then obtain k where "bit (w AND shl1 n) k"
    by (auto simp add: bit_eq_iff)
  then show "bit w n"
    by (auto simp add: bit_and_iff bit_shl1)
next
  assume "bit w n"
  then have "n < 32"
    by (auto dest: bit_imp_le_length)
  with \<open>bit w n\<close> have "bit (w AND shl1 n) n"
    by (simp add: bit_and_iff bit_shl1)
  then show "w AND shl1 n \<noteq> 0"
    by auto
qed

lemma bit_data_byte:
  "bit (ucast (drop_bit l (w :: uint32_t)) :: uint8_t) i \<longleftrightarrow> i < 8 \<and> bit w (l + i)"
  by (auto simp add: bit_ucast_iff bit_drop_bit_eq dest: bit_imp_le_length)

lemma unat_data_byte:
  "unat (ucast (drop_bit l (w :: uint32_t)) :: uint8_t) = unat w div 2 ^ l mod 256"
proof -
  have "unat (ucast (drop_bit l w) :: uint8_t) = take_bit 8 (unat (drop_bit l w))"
    by (simp add: unsigned_ucast_eq)
  also have "\<dots> = take_bit 8 (drop_bit l (unat w))"
    by (simp only: unat_drop_bit_eq)
  also have "\<dots> = unat w div 2 ^ l mod 256"
    by (simp add: take_bit_eq_mod drop_bit_eq_div)
  finally show ?thesis .
qed

section \<open>The busy-wait loop\<close>

lemma nop_loop_log:
  "0 \<le> i \<Longrightarrow> i \<le> 256 \<Longrightarrow> nop_loop i m = m\<lparr>log := log m @ replicate (nat (256 - i)) Nop\<rparr>"
proof (induction i m rule: nop_loop.induct)
  case (1 i m)
  show ?case
  proof (cases "i < 256")
    case True
    then have "nat (256 - i) = Suc (nat (256 - (i + 1)))"
      by simp
    with True 1 show ?thesis
      by (subst nop_loop.simps) (simp add: nop_def replicate_append_same)
  next
    case False
    with 1 show ?thesis
      by (subst nop_loop.simps) simp
  qed
qed

lemma nop_loop_0: "nop_loop 0 m = m\<lparr>log := log m @ replicate 256 Nop\<rparr>"
  using nop_loop_log [of 0 m] by simp

section \<open>The effect of each function in closed form\<close>

lemma fifo_clear_eq:
  "neorv32_trng_fifo_clear H m =
     m\<lparr>CTRL := CTRL m OR shl1 (TRNG_CTRL_FIFO_CLR H),
       log := log m @ [Load TRNG_CTRL (CTRL m),
                       Store TRNG_CTRL (CTRL m OR shl1 (TRNG_CTRL_FIFO_CLR H))]\<rparr>"
  by (simp add: neorv32_trng_fifo_clear_def ld_CTRL_def st_CTRL_def)

lemma enable_eq:
  "neorv32_trng_enable H m =
     m\<lparr>CTRL := shl1 (TRNG_CTRL_EN H) OR shl1 (TRNG_CTRL_FIFO_CLR H),
       log := log m @ [Store TRNG_CTRL 0] @ replicate 256 Nop @
         [Store TRNG_CTRL (shl1 (TRNG_CTRL_EN H))] @ replicate 256 Nop @
         [Load TRNG_CTRL (shl1 (TRNG_CTRL_EN H)),
          Store TRNG_CTRL (shl1 (TRNG_CTRL_EN H) OR shl1 (TRNG_CTRL_FIFO_CLR H))]\<rparr>"
  by (simp add: neorv32_trng_enable_def Let_def nop_loop_0 fifo_clear_eq st_CTRL_def)


lemma get_eq:
  "neorv32_trng_get H d m =
     (if bit (CTRL m) (TRNG_CTRL_VALID H)
      then (0, ucast (drop_bit (TRNG_CTRL_DATA_LSB H) (CTRL m)),
            m\<lparr>log := log m @ [Load TRNG_CTRL (CTRL m)]\<rparr>)
      else (- 1, d, m\<lparr>log := log m @ [Load TRNG_CTRL (CTRL m)]\<rparr>))"
  by (simp add: neorv32_trng_get_def ld_CTRL_def and_shl1_nonzero)

lemma available_eq:
  "neorv32_trng_available H m =
     (if bit (SOC m) (SYSINFO_SOC_IO_TRNG H) then 1 else 0,
      m\<lparr>log := log m @ [Load SYSINFO_SOC (SOC m)]\<rparr>)"
  by (simp add: neorv32_trng_available_def ld_SOC_def and_shl1_nonzero)

lemma check_sim_mode_eq:
  "neorv32_trng_check_sim_mode H m =
     (if bit (CTRL m) (TRNG_CTRL_SIM_MODE H) then - 1 else 0,
      m\<lparr>log := log m @ [Load TRNG_CTRL (CTRL m)]\<rparr>)"
  by (simp add: neorv32_trng_check_sim_mode_def ld_CTRL_def and_shl1_nonzero)

lemma disable_eq:
  "neorv32_trng_disable m = m\<lparr>CTRL := 0, log := log m @ [Store TRNG_CTRL 0]\<rparr>"
  by (simp add: neorv32_trng_disable_def st_CTRL_def)

lemma nop_funpow_log: "(nop ^^ n) m = m\<lparr>log := log m @ replicate n Nop\<rparr>"
  by (induction n) (simp_all add: nop_def replicate_append_same)

section \<open>The claims\<close>

text \<open>
  Claim C1.
  For every register state, \<^verbatim>\<open>neorv32_trng_get\<close> returns 0 (valid data) if and only
  if the \<^verbatim>\<open>VALID\<close> bit of the value it loads from the control register is set. On
  success the byte stored through \<^verbatim>\<open>data\<close> is the 8-bit field of that same value which
  starts at \<^verbatim>\<open>TRNG_CTRL_DATA_LSB\<close>: bit \<open>i\<close> of the byte is bit \<open>DATA_LSB + i\<close> of the
  register, and as a number it is the register value shifted down, modulo 256.
\<close>

theorem trng_get_valid_iff_data:
  assumes "neorv32_trng_get H d m = (r, b, m')"
  shows "(r = 0 \<longleftrightarrow> bit (CTRL m) (TRNG_CTRL_VALID H)) \<and>
         (r = 0 \<longrightarrow>
            (\<forall>i. bit b i \<longleftrightarrow> i < 8 \<and> bit (CTRL m) (TRNG_CTRL_DATA_LSB H + i)) \<and>
            unat b = unat (CTRL m) div 2 ^ TRNG_CTRL_DATA_LSB H mod 256) \<and>
         log m' = log m @ [Load TRNG_CTRL (CTRL m)]"
  using assms
  by (auto simp add: get_eq bit_data_byte unat_data_byte split: if_splits)

theorem trng_get_valid_iff_data_witness:
  "neorv32_trng_get sample_h 0 \<lparr>CTRL = 0x8000005A, SOC = 0, log = []\<rparr> =
     (0, 0x5A, \<lparr>CTRL = 0x8000005A, SOC = 0, log = [Load TRNG_CTRL 0x8000005A]\<rparr>) \<and>
   bit (0x8000005A :: uint32_t) 31 \<and>
   unat (0x5A :: uint8_t) = unat (0x8000005A :: uint32_t) div 2 ^ 0 mod 256"
proof -
  have h: "neorv32_trng_get sample_h 0 \<lparr>CTRL = 0x8000005A, SOC = 0, log = []\<rparr> =
     (0, 0x5A, \<lparr>CTRL = 0x8000005A, SOC = 0, log = [Load TRNG_CTRL 0x8000005A]\<rparr>)"
    by (simp add: neorv32_trng_get_def ld_CTRL_def shl1_def sample_h_def)
  from trng_get_valid_iff_data [OF h] h show ?thesis
    by (simp add: sample_h_def)
qed

text \<open>
  Claim C2.
  When the \<^verbatim>\<open>VALID\<close> bit is clear, \<^verbatim>\<open>neorv32_trng_get\<close> returns -1 and the location
  \<^verbatim>\<open>*data\<close> keeps its content. In every case the machine after the call is the machine
  before it with one load of the control register appended to the log: one read, no
  write, both registers unchanged.
\<close>

theorem trng_get_not_valid_frame:
  assumes "neorv32_trng_get H d m = (r, b, m')"
  shows "(\<not> bit (CTRL m) (TRNG_CTRL_VALID H) \<longrightarrow> r = - 1 \<and> b = d) \<and>
         m' = m\<lparr>log := log m @ [Load TRNG_CTRL (CTRL m)]\<rparr> \<and>
         CTRL m' = CTRL m \<and> SOC m' = SOC m"
  using assms by (auto simp add: get_eq split: if_splits)

theorem trng_get_not_valid_frame_witness:
  "neorv32_trng_get sample_h 0x77 \<lparr>CTRL = 0x4000005A, SOC = 0, log = []\<rparr> =
     (- 1, 0x77, \<lparr>CTRL = 0x4000005A, SOC = 0, log = [Load TRNG_CTRL 0x4000005A]\<rparr>) \<and>
   \<not> bit (0x4000005A :: uint32_t) 31"
proof -
  have h: "neorv32_trng_get sample_h 0x77 \<lparr>CTRL = 0x4000005A, SOC = 0, log = []\<rparr> =
     (- 1, 0x77, \<lparr>CTRL = 0x4000005A, SOC = 0, log = [Load TRNG_CTRL 0x4000005A]\<rparr>)"
    by (simp add: neorv32_trng_get_def ld_CTRL_def shl1_def sample_h_def)
  have v: "\<not> bit (0x4000005A :: uint32_t) 31"
    by simp
  from trng_get_not_valid_frame [OF h] h v show ?thesis
    by simp
qed


text \<open>
  Claim C3.
  \<^verbatim>\<open>neorv32_trng_enable\<close> performs, in this order and nothing else: a store of 0 to the
  control register, 256 \<^verbatim>\<open>nop\<close>s, a store of \<^verbatim>\<open>1 << TRNG_CTRL_EN\<close>, 256 \<^verbatim>\<open>nop\<close>s
  again, and the pool clear, which is a load of the control register followed by a
  store of the loaded value with the \<^verbatim>\<open>FIFO_CLR\<close> mask or-ed in. The value of the second
  store has the \<^verbatim>\<open>ENABLE\<close> bit set and no other.
\<close>

theorem trng_enable_sequence:
  "log (neorv32_trng_enable H m) =
     log m @ [Store TRNG_CTRL 0] @ replicate 256 Nop @
       [Store TRNG_CTRL (shl1 (TRNG_CTRL_EN H))] @ replicate 256 Nop @
       [Load TRNG_CTRL (shl1 (TRNG_CTRL_EN H)),
        Store TRNG_CTRL (shl1 (TRNG_CTRL_EN H) OR shl1 (TRNG_CTRL_FIFO_CLR H))] \<and>
   neorv32_trng_enable H m =
     neorv32_trng_fifo_clear H
       (m\<lparr>CTRL := shl1 (TRNG_CTRL_EN H),
          log := log m @ [Store TRNG_CTRL 0] @ replicate 256 Nop @
            [Store TRNG_CTRL (shl1 (TRNG_CTRL_EN H))] @ replicate 256 Nop\<rparr>) \<and>
   (TRNG_CTRL_EN H < 32 \<longrightarrow>
      (\<forall>k. bit (shl1 (TRNG_CTRL_EN H)) k \<longleftrightarrow> k = TRNG_CTRL_EN H))"
  by (simp add: enable_eq fifo_clear_eq bit_shl1)

theorem trng_enable_sequence_witness:
  "TRNG_CTRL_EN sample_h < 32 \<and>
   log (neorv32_trng_enable sample_h \<lparr>CTRL = 0x12345678, SOC = 0, log = []\<rparr>) =
     [Store TRNG_CTRL 0] @ replicate 256 Nop @ [Store TRNG_CTRL 0x40000000] @
     replicate 256 Nop @ [Load TRNG_CTRL 0x40000000, Store TRNG_CTRL 0x50000000] \<and>
   bit (0x40000000 :: uint32_t) 30 \<and> \<not> bit (0x40000000 :: uint32_t) 28"
  using trng_enable_sequence [of sample_h "\<lparr>CTRL = 0x12345678, SOC = 0, log = []\<rparr>"]
  by (simp add: sample_h_def shl1_def fifo_clear_eq)

text \<open>
  Claim C4.
  \<^verbatim>\<open>neorv32_trng_fifo_clear\<close> is a read-modify-write of the control register: one load,
  then one store of the loaded value or-ed with \<^verbatim>\<open>1 << TRNG_CTRL_FIFO_CLR\<close>. Afterwards
  the \<^verbatim>\<open>FIFO_CLR\<close> bit is set and every other bit, \<^verbatim>\<open>ENABLE\<close> in particular, has the
  value it had at the time of the call.
\<close>

theorem trng_fifo_clear_rmw:
  "log (neorv32_trng_fifo_clear H m) =
     log m @ [Load TRNG_CTRL (CTRL m),
              Store TRNG_CTRL (CTRL m OR shl1 (TRNG_CTRL_FIFO_CLR H))] \<and>
   CTRL (neorv32_trng_fifo_clear H m) = CTRL m OR shl1 (TRNG_CTRL_FIFO_CLR H) \<and>
   SOC (neorv32_trng_fifo_clear H m) = SOC m \<and>
   (TRNG_CTRL_FIFO_CLR H < 32 \<longrightarrow>
      bit (CTRL (neorv32_trng_fifo_clear H m)) (TRNG_CTRL_FIFO_CLR H)) \<and>
   (\<forall>k. k \<noteq> TRNG_CTRL_FIFO_CLR H \<longrightarrow>
      bit (CTRL (neorv32_trng_fifo_clear H m)) k = bit (CTRL m) k) \<and>
   (TRNG_CTRL_EN H \<noteq> TRNG_CTRL_FIFO_CLR H \<longrightarrow>
      bit (CTRL (neorv32_trng_fifo_clear H m)) (TRNG_CTRL_EN H) =
      bit (CTRL m) (TRNG_CTRL_EN H))"
  by (simp add: fifo_clear_eq bit_or_iff bit_shl1)

theorem trng_fifo_clear_rmw_witness:
  "TRNG_CTRL_FIFO_CLR sample_h < 32 \<and>
   TRNG_CTRL_EN sample_h \<noteq> TRNG_CTRL_FIFO_CLR sample_h \<and>
   (30 :: nat) \<noteq> TRNG_CTRL_FIFO_CLR sample_h \<and>
   neorv32_trng_fifo_clear sample_h \<lparr>CTRL = 0x4000005A, SOC = 7, log = []\<rparr> =
     \<lparr>CTRL = 0x5000005A, SOC = 7,
      log = [Load TRNG_CTRL 0x4000005A, Store TRNG_CTRL 0x5000005A]\<rparr> \<and>
   bit (CTRL (neorv32_trng_fifo_clear sample_h \<lparr>CTRL = 0x4000005A, SOC = 7, log = []\<rparr>)) 28 \<and>
   bit (CTRL (neorv32_trng_fifo_clear sample_h \<lparr>CTRL = 0x4000005A, SOC = 7, log = []\<rparr>)) 30 \<and>
   \<not> bit (CTRL (neorv32_trng_fifo_clear sample_h \<lparr>CTRL = 0x0000005A, SOC = 7, log = []\<rparr>)) 30"
  using trng_fifo_clear_rmw [of sample_h "\<lparr>CTRL = 0x4000005A, SOC = 7, log = []\<rparr>"]
    trng_fifo_clear_rmw [of sample_h "\<lparr>CTRL = 0x0000005A, SOC = 7, log = []\<rparr>"]
  by (simp add: sample_h_def shl1_def neorv32_trng_fifo_clear_def ld_CTRL_def st_CTRL_def)

text \<open>
  Claim C5.
  \<^verbatim>\<open>neorv32_trng_available\<close> returns a nonzero value exactly when the bit
  \<^verbatim>\<open>SYSINFO_SOC_IO_TRNG\<close> of the \<^verbatim>\<open>SOC\<close> register is set, for every value of that register.
  Its only access is one load of \<^verbatim>\<open>SOC\<close>, and its result is the same whatever the
  control register holds.
\<close>

theorem trng_available_iff:
  "(fst (neorv32_trng_available H m) \<noteq> 0 \<longleftrightarrow> bit (SOC m) (SYSINFO_SOC_IO_TRNG H)) \<and>
   snd (neorv32_trng_available H m) = m\<lparr>log := log m @ [Load SYSINFO_SOC (SOC m)]\<rparr> \<and>
   fst (neorv32_trng_available H (m\<lparr>CTRL := c\<rparr>)) = fst (neorv32_trng_available H m)"
  by (simp add: available_eq)

theorem trng_available_iff_witness:
  "fst (neorv32_trng_available sample_h \<lparr>CTRL = 0, SOC = 0x01000000, log = []\<rparr>) \<noteq> 0 \<and>
   bit (0x01000000 :: uint32_t) 24 \<and>
   fst (neorv32_trng_available sample_h \<lparr>CTRL = 0xFFFFFFFF, SOC = 0xFEFFFFFF, log = []\<rparr>) = 0 \<and>
   snd (neorv32_trng_available sample_h \<lparr>CTRL = 0, SOC = 0x01000000, log = []\<rparr>) =
     \<lparr>CTRL = 0, SOC = 0x01000000, log = [Load SYSINFO_SOC 0x01000000]\<rparr>"
  using trng_available_iff [of sample_h "\<lparr>CTRL = 0, SOC = 0x01000000, log = []\<rparr>" 0]
    trng_available_iff [of sample_h "\<lparr>CTRL = 0xFFFFFFFF, SOC = 0xFEFFFFFF, log = []\<rparr>" 0]
  by (simp add: sample_h_def)

text \<open>
  Claim C6.
  \<^verbatim>\<open>neorv32_trng_check_sim_mode\<close> returns a nonzero value exactly when the \<^verbatim>\<open>SIM_MODE\<close>
  bit of the control register is set, and its only access is one load of that register.
  Two register values that agree on the \<^verbatim>\<open>SIM_MODE\<close> bit give the same result; so
  changing the \<^verbatim>\<open>ENABLE\<close> and \<^verbatim>\<open>VALID\<close> bits, which are other bits, changes nothing.
\<close>

theorem trng_check_sim_mode_iff:
  "(fst (neorv32_trng_check_sim_mode H m) \<noteq> 0 \<longleftrightarrow> bit (CTRL m) (TRNG_CTRL_SIM_MODE H)) \<and>
   snd (neorv32_trng_check_sim_mode H m) = m\<lparr>log := log m @ [Load TRNG_CTRL (CTRL m)]\<rparr> \<and>
   (bit c (TRNG_CTRL_SIM_MODE H) = bit (CTRL m) (TRNG_CTRL_SIM_MODE H) \<longrightarrow>
      fst (neorv32_trng_check_sim_mode H (m\<lparr>CTRL := c\<rparr>)) =
      fst (neorv32_trng_check_sim_mode H m)) \<and>
   (TRNG_CTRL_EN H \<noteq> TRNG_CTRL_SIM_MODE H \<longrightarrow>
    TRNG_CTRL_VALID H \<noteq> TRNG_CTRL_SIM_MODE H \<longrightarrow>
    (\<forall>k. k \<noteq> TRNG_CTRL_EN H \<longrightarrow> k \<noteq> TRNG_CTRL_VALID H \<longrightarrow> bit c k = bit (CTRL m) k) \<longrightarrow>
      fst (neorv32_trng_check_sim_mode H (m\<lparr>CTRL := c\<rparr>)) =
      fst (neorv32_trng_check_sim_mode H m))"
  by (simp add: check_sim_mode_eq)

theorem trng_check_sim_mode_iff_witness:
  "TRNG_CTRL_EN sample_h \<noteq> TRNG_CTRL_SIM_MODE sample_h \<and>
   TRNG_CTRL_VALID sample_h \<noteq> TRNG_CTRL_SIM_MODE sample_h \<and>
   (\<forall>k. k = 30 \<or> k = 31 \<or>
      bit (0x2000005A XOR (shl1 30 OR shl1 31)) k = bit (0x2000005A :: uint32_t) k) \<and>
   fst (neorv32_trng_check_sim_mode sample_h
     \<lparr>CTRL = 0x2000005A XOR (shl1 30 OR shl1 31), SOC = 0, log = []\<rparr>) = - 1 \<and>
   fst (neorv32_trng_check_sim_mode sample_h \<lparr>CTRL = 0x2000005A, SOC = 0, log = []\<rparr>) = - 1"
proof -
  let ?m = "\<lparr>CTRL = 0x2000005A, SOC = 0, log = []\<rparr>"
  let ?c = "0x2000005A XOR (shl1 30 OR shl1 31) :: uint32_t"
  have en: "TRNG_CTRL_EN sample_h \<noteq> TRNG_CTRL_SIM_MODE sample_h"
    and valid: "TRNG_CTRL_VALID sample_h \<noteq> TRNG_CTRL_SIM_MODE sample_h"
    by (simp_all add: sample_h_def)
  have agree: "\<forall>k. k \<noteq> TRNG_CTRL_EN sample_h \<longrightarrow> k \<noteq> TRNG_CTRL_VALID sample_h \<longrightarrow>
      bit ?c k = bit (CTRL ?m) k"
    by (simp add: sample_h_def bit_xor_iff bit_or_iff bit_shl1)
  have base: "fst (neorv32_trng_check_sim_mode sample_h ?m) = - 1"
    by (simp add: neorv32_trng_check_sim_mode_def ld_CTRL_def shl1_def sample_h_def)
  from trng_check_sim_mode_iff [of sample_h ?m ?c] en valid agree base
  have "fst (neorv32_trng_check_sim_mode sample_h (?m\<lparr>CTRL := ?c\<rparr>)) = - 1"
    by simp
  with en valid agree base show ?thesis
    by (auto simp add: sample_h_def)
qed


text \<open>
  Claim C7.
  From every initial state, \<^verbatim>\<open>neorv32_trng_enable\<close> followed by
  \<^verbatim>\<open>neorv32_trng_disable\<close> leaves the control register at 0. \<^verbatim>\<open>neorv32_trng_disable\<close>
  is one store of 0 to the control register: no load, no \<^verbatim>\<open>nop\<close>.
\<close>

theorem trng_enable_disable_zero:
  "CTRL (neorv32_trng_disable (neorv32_trng_enable H m)) = 0 \<and>
   log (neorv32_trng_disable (neorv32_trng_enable H m)) =
     log (neorv32_trng_enable H m) @ [Store TRNG_CTRL 0] \<and>
   neorv32_trng_disable m = m\<lparr>CTRL := 0, log := log m @ [Store TRNG_CTRL 0]\<rparr>"
  by (simp add: disable_eq)

theorem trng_enable_disable_zero_witness:
  "CTRL (neorv32_trng_disable
     (neorv32_trng_enable sample_h \<lparr>CTRL = 0xFFFFFFFF, SOC = 0, log = []\<rparr>)) = 0 \<and>
   neorv32_trng_disable \<lparr>CTRL = 0xFFFFFFFF, SOC = 0, log = []\<rparr> =
     \<lparr>CTRL = 0, SOC = 0, log = [Store TRNG_CTRL 0]\<rparr>"
  using trng_enable_disable_zero [of sample_h "\<lparr>CTRL = 0xFFFFFFFF, SOC = 0, log = []\<rparr>"]
  by simp

text \<open>
  Claim C8.
  Enabling twice is the same as enabling once: from every initial state the registers
  after \<^verbatim>\<open>enable(); enable()\<close> equal the registers after one \<^verbatim>\<open>enable()\<close>, and the second
  call performs the same accesses as the first.
\<close>

theorem trng_enable_twice:
  "CTRL (neorv32_trng_enable H (neorv32_trng_enable H m)) = CTRL (neorv32_trng_enable H m) \<and>
   SOC (neorv32_trng_enable H (neorv32_trng_enable H m)) = SOC (neorv32_trng_enable H m) \<and>
   CTRL (neorv32_trng_enable H m) = shl1 (TRNG_CTRL_EN H) OR shl1 (TRNG_CTRL_FIFO_CLR H) \<and>
   drop (length (log (neorv32_trng_enable H m)))
     (log (neorv32_trng_enable H (neorv32_trng_enable H m))) =
   drop (length (log m)) (log (neorv32_trng_enable H m))"
  by (simp add: enable_eq)

theorem trng_enable_twice_witness:
  "CTRL (neorv32_trng_enable sample_h
     (neorv32_trng_enable sample_h \<lparr>CTRL = 0xA000005A, SOC = 0, log = []\<rparr>)) = 0x50000000 \<and>
   CTRL (neorv32_trng_enable sample_h \<lparr>CTRL = 0xA000005A, SOC = 0, log = []\<rparr>) = 0x50000000"
  using trng_enable_twice [of sample_h "\<lparr>CTRL = 0xA000005A, SOC = 0, log = []\<rparr>"]
  by (simp add: sample_h_def shl1_def)

text \<open>
  Claim C9.
  Every operation of the driver terminates. Each busy-wait of \<^verbatim>\<open>neorv32_trng_enable\<close>
  runs its body exactly 256 times from \<open>i = 0\<close>, whatever the registers hold (and
  \<open>256 - i\<close> times from any \<open>i\<close> in range), so \<^verbatim>\<open>neorv32_trng_enable\<close> performs 516 steps,
  512 of them \<^verbatim>\<open>nop\<close>s. The other five functions perform one or two register accesses
  and no loop iteration.
\<close>

theorem trng_operations_bounded:
  "nop_loop 0 m = (nop ^^ 256) m \<and>
   (0 \<le> i \<and> i \<le> 256 \<longrightarrow> nop_loop i m = (nop ^^ nat (256 - i)) m) \<and>
   length (log (snd (neorv32_trng_available H m))) = length (log m) + 1 \<and>
   length (log (neorv32_trng_disable m)) = length (log m) + 1 \<and>
   length (log (neorv32_trng_fifo_clear H m)) = length (log m) + 2 \<and>
   length (log (snd (snd (neorv32_trng_get H d m)))) = length (log m) + 1 \<and>
   length (log (snd (neorv32_trng_check_sim_mode H m))) = length (log m) + 1 \<and>
   length (log (neorv32_trng_enable H m)) = length (log m) + 516 \<and>
   length (filter (\<lambda>a. a = Nop) (drop (length (log m)) (log (neorv32_trng_enable H m)))) = 512 \<and>
   Nop \<notin> set (drop (length (log m)) (log (snd (neorv32_trng_available H m)))) \<and>
   Nop \<notin> set (drop (length (log m)) (log (neorv32_trng_disable m))) \<and>
   Nop \<notin> set (drop (length (log m)) (log (neorv32_trng_fifo_clear H m))) \<and>
   Nop \<notin> set (drop (length (log m)) (log (snd (snd (neorv32_trng_get H d m))))) \<and>
   Nop \<notin> set (drop (length (log m)) (log (snd (neorv32_trng_check_sim_mode H m))))"
  by (simp add: nop_loop_0 nop_loop_log nop_funpow_log available_eq disable_eq
      fifo_clear_eq get_eq check_sim_mode_eq enable_eq)

theorem trng_operations_bounded_witness:
  "(0 :: int) \<le> 250 \<and> (250 :: int) \<le> 256 \<and>
   nop_loop 250 \<lparr>CTRL = 0xFFFFFFFF, SOC = 0, log = []\<rparr> =
     \<lparr>CTRL = 0xFFFFFFFF, SOC = 0, log = [Nop, Nop, Nop, Nop, Nop, Nop]\<rparr> \<and>
   length (log (nop_loop 0 \<lparr>CTRL = 0xFFFFFFFF, SOC = 0, log = []\<rparr>)) = 256 \<and>
   length (log (neorv32_trng_enable sample_h \<lparr>CTRL = 0xFFFFFFFF, SOC = 0, log = []\<rparr>)) = 516"
proof -
  let ?m = "\<lparr>CTRL = 0xFFFFFFFF, SOC = 0, log = []\<rparr>"
  note bounded = trng_operations_bounded [of ?m 250 sample_h 0]
  have six: "replicate 6 Nop = [Nop, Nop, Nop, Nop, Nop, Nop]"
    by (simp add: numeral_eq_Suc)
  from bounded have "nop_loop 250 ?m = (nop ^^ 6) ?m"
    by simp
  then have short: "nop_loop 250 ?m = ?m\<lparr>log := [Nop, Nop, Nop, Nop, Nop, Nop]\<rparr>"
    by (simp only: nop_funpow_log six) simp
  from bounded have "nop_loop 0 ?m = (nop ^^ 256) ?m"
    by simp
  then have full: "length (log (nop_loop 0 ?m)) = 256"
    by (simp only: nop_funpow_log) simp
  from bounded have "length (log (neorv32_trng_enable sample_h ?m)) = 516"
    by simp
  with short full show ?thesis
    by simp
qed

text \<open>
  Claim C10.
  Return values: \<^verbatim>\<open>neorv32_trng_available\<close> returns 0 or 1, and 1 exactly when the
  peripheral is present; \<^verbatim>\<open>neorv32_trng_get\<close> returns 0 or -1, and 0 exactly when the
  data is valid; \<^verbatim>\<open>neorv32_trng_check_sim_mode\<close> returns 0 or -1, and -1 exactly in
  simulation mode.
\<close>

theorem trng_return_encodings:
  "fst (neorv32_trng_available H m) \<in> {0, 1} \<and>
   (fst (neorv32_trng_available H m) = 1 \<longleftrightarrow> bit (SOC m) (SYSINFO_SOC_IO_TRNG H)) \<and>
   fst (neorv32_trng_get H d m) \<in> {0, - 1} \<and>
   (fst (neorv32_trng_get H d m) = 0 \<longleftrightarrow> bit (CTRL m) (TRNG_CTRL_VALID H)) \<and>
   fst (neorv32_trng_check_sim_mode H m) \<in> {0, - 1} \<and>
   (fst (neorv32_trng_check_sim_mode H m) = - 1 \<longleftrightarrow> bit (CTRL m) (TRNG_CTRL_SIM_MODE H))"
  by (simp add: available_eq get_eq check_sim_mode_eq)

theorem trng_return_encodings_witness:
  "fst (neorv32_trng_available sample_h \<lparr>CTRL = 0xA000005A, SOC = 0x01000000, log = []\<rparr>) = 1 \<and>
   fst (neorv32_trng_get sample_h 0 \<lparr>CTRL = 0xA000005A, SOC = 0x01000000, log = []\<rparr>) = 0 \<and>
   fst (neorv32_trng_check_sim_mode sample_h
     \<lparr>CTRL = 0xA000005A, SOC = 0x01000000, log = []\<rparr>) = - 1 \<and>
   fst (neorv32_trng_available sample_h \<lparr>CTRL = 0x5A, SOC = 0, log = []\<rparr>) = 0 \<and>
   fst (neorv32_trng_get sample_h 0 \<lparr>CTRL = 0x5A, SOC = 0, log = []\<rparr>) = - 1 \<and>
   fst (neorv32_trng_check_sim_mode sample_h \<lparr>CTRL = 0x5A, SOC = 0, log = []\<rparr>) = 0"
  using trng_return_encodings [of sample_h "\<lparr>CTRL = 0xA000005A, SOC = 0x01000000, log = []\<rparr>" 0]
    trng_return_encodings [of sample_h "\<lparr>CTRL = 0x5A, SOC = 0, log = []\<rparr>" 0]
  by (auto simp add: sample_h_def)

end
